theory Spec2Isabelle
  imports Complex_Main "HOL-Library.AList" "HOL-Library.Char_ord" "HOL-Library.List_Lexorder"
begin

section \<open>FundBank: the share-accounting engine \<open>recalculate_fund\<close>\<close>

text \<open>
  This theory embeds the function \<open>recalculate_fund\<close> of \<open>src/bank_app.py\<close> (lines 86-140)
  and settles the properties stated about it.

  Numbers. The engine computes with Python floats. A float is modelled as \<open>fnum\<close>: either a
  finite value, computed with exact real arithmetic, or the not-a-number value \<open>NaN\<close>, which
  the source produces for a date without NAV entry (\<open>nav_history.get(d_str, np.nan)\<close>).
  Rounding and overflow to infinity are outside this model. Comparisons with \<open>NaN\<close> are
  false, arithmetic with \<open>NaN\<close> gives \<open>NaN\<close>, as for Python floats.
\<close>

subsection \<open>Floats with NaN\<close>

datatype fnum = Fin real | NaN

fun fadd :: "fnum \<Rightarrow> fnum \<Rightarrow> fnum" where
  "fadd (Fin a) (Fin b) = Fin (a + b)"
| "fadd _ _ = NaN"

fun fsub :: "fnum \<Rightarrow> fnum \<Rightarrow> fnum" where
  "fsub (Fin a) (Fin b) = Fin (a - b)"
| "fsub _ _ = NaN"

fun fmul :: "fnum \<Rightarrow> fnum \<Rightarrow> fnum" where
  "fmul (Fin a) (Fin b) = Fin (a * b)"
| "fmul _ _ = NaN"

text \<open>
  Every division of the source is guarded by \<open>divisor > 0\<close> (lines 101, 107, 111, 123), so
  \<open>fdiv\<close> is never evaluated at a zero divisor, where Python would raise.
\<close>

fun fdiv :: "fnum \<Rightarrow> fnum \<Rightarrow> fnum" where
  "fdiv (Fin a) (Fin b) = Fin (a / b)"
| "fdiv _ _ = NaN"

fun fneg :: "fnum \<Rightarrow> fnum" where
  "fneg (Fin a) = Fin (- a)"
| "fneg NaN = NaN"

fun fgt :: "fnum \<Rightarrow> fnum \<Rightarrow> bool" where
  "fgt (Fin a) (Fin b) = (b < a)"
| "fgt _ _ = False"

definition flt :: "fnum \<Rightarrow> fnum \<Rightarrow> bool" where
  "flt x y = fgt y x"

text \<open>Python's \<open>min(a, b)\<close> keeps \<open>a\<close> unless \<open>b < a\<close>; \<open>max(a, b)\<close> keeps \<open>a\<close> unless \<open>b > a\<close>.\<close>

definition py_min :: "fnum \<Rightarrow> fnum \<Rightarrow> fnum" where
  "py_min a b = (if flt b a then b else a)"

definition py_max :: "fnum \<Rightarrow> fnum \<Rightarrow> fnum" where
  "py_max a b = (if fgt b a then b else a)"

definition fsum :: "fnum list \<Rightarrow> fnum" where
  "fsum xs = foldr fadd xs (Fin 0)"

subsection \<open>The transaction table and the derived ledger\<close>

text \<open>
  A cell of the \<open>Amount\<close> column as the caller hands it over: a number, or anything that
  \<open>pd.to_numeric(..., errors="coerce")\<close> turns into a missing value (an empty cell, a text
  that is not a number).
\<close>

datatype amount_cell = NumCell real | BadCell

record transaction =
  tx_date :: string
  tx_user :: string
  tx_type :: string
  tx_amount :: amount_cell

record ledger_entry =
  le_date :: string
  le_user :: string
  le_type :: string
  le_amount :: fnum
  le_shares :: fnum
  le_nav_share :: fnum

text \<open>Line 88: \<open>pd.to_numeric(transactions["Amount"], errors="coerce").fillna(0.0)\<close>.\<close>

fun to_numeric_fillna :: "amount_cell \<Rightarrow> amount_cell" where
  "to_numeric_fillna (NumCell a) = NumCell a"
| "to_numeric_fillna BadCell = NumCell 0"

definition coerce_amounts :: "transaction list \<Rightarrow> transaction list" where
  "coerce_amounts transactions =
     map (\<lambda>row. row\<lparr>tx_amount := to_numeric_fillna (tx_amount row)\<rparr>) transactions"

text \<open>\<open>float(row["Amount"])\<close>; after line 88 the cell is always a number.\<close>

fun amount_of :: "amount_cell \<Rightarrow> fnum" where
  "amount_of (NumCell a) = Fin a"
| "amount_of BadCell = NaN"

text \<open>\<open>Series.unique()\<close>: the distinct values in order of first appearance.\<close>

fun unique :: "'a list \<Rightarrow> 'a list" where
  "unique [] = []"
| "unique (x # xs) = x # unique (filter (\<lambda>y. y \<noteq> x) xs)"

text \<open>A Python dict is an association list in insertion order; \<open>d.get(k, default)\<close>:\<close>

definition dict_get :: "('k \<times> 'v) list \<Rightarrow> 'k \<Rightarrow> 'v \<Rightarrow> 'v" where
  "dict_get d k dflt = (case map_of d k of None \<Rightarrow> dflt | Some v \<Rightarrow> v)"

subsection \<open>The simulation (lines 93-123)\<close>

record sim_state =
  total_shares :: fnum
  user_share_balances :: "(string \<times> fnum) list"
  share_ledger :: "ledger_entry list"
  nav_per_share :: "(string \<times> fnum) list"

text \<open>The expression \<open>nav / total_shares if total_shares > 0 else 1.0\<close> of lines 101 and 123.\<close>

definition price_of :: "fnum \<Rightarrow> fnum \<Rightarrow> fnum" where
  "price_of nav ts = (if fgt ts (Fin 0) then fdiv nav ts else Fin 1)"

text \<open>\<open>amt / nav_per_share_today if nav_per_share_today > 0 else 0\<close> of lines 107 and 111.\<close>

definition shares_for :: "fnum \<Rightarrow> fnum \<Rightarrow> fnum" where
  "shares_for amt nav_per_share_today =
     (if fgt nav_per_share_today (Fin 0) then fdiv amt nav_per_share_today else Fin 0)"

text \<open>The body of the inner loop (lines 103-122), for one row of \<open>txs_today\<close>.\<close>

definition process_row :: "string \<Rightarrow> fnum \<Rightarrow> sim_state \<Rightarrow> transaction \<Rightarrow> sim_state" where
  "process_row d_str nav_per_share_today st row =
     (let amt = amount_of (tx_amount row);
          u = tx_user row;
          ttype = tx_type row
      in if ttype = ''Deposit'' then
           (let shares = shares_for amt nav_per_share_today
            in st\<lparr>total_shares := fadd (total_shares st) shares,
                  user_share_balances :=
                    AList.update u (fadd (dict_get (user_share_balances st) u (Fin 0)) shares)
                      (user_share_balances st),
                  share_ledger := share_ledger st @
                    [\<lparr>le_date = d_str, le_user = u, le_type = ttype, le_amount = amt,
                      le_shares = shares, le_nav_share = nav_per_share_today\<rparr>]\<rparr>)
         else if ttype = ''Withdrawal'' then
           (let shares = py_min (shares_for amt nav_per_share_today)
                           (dict_get (user_share_balances st) u (Fin 0));
                amt' = fmul shares nav_per_share_today
            in st\<lparr>total_shares := fsub (total_shares st) shares,
                  user_share_balances :=
                    AList.update u (fsub (dict_get (user_share_balances st) u (Fin 0)) shares)
                      (user_share_balances st),
                  share_ledger := share_ledger st @
                    [\<lparr>le_date = d_str, le_user = u, le_type = ttype, le_amount = fneg amt',
                      le_shares = shares, le_nav_share = nav_per_share_today\<rparr>]\<rparr>)
         else st)"

text \<open>The body of the outer loop (lines 98-123), for one date.\<close>

definition nav_on :: "(string \<times> fnum) list \<Rightarrow> string \<Rightarrow> fnum" where
  "nav_on nav_history d_str = dict_get nav_history d_str NaN"

definition txs_on :: "transaction list \<Rightarrow> string \<Rightarrow> transaction list" where
  "txs_on transactions d_str = filter (\<lambda>row. tx_date row = d_str) transactions"

definition process_day ::
  "transaction list \<Rightarrow> (string \<times> fnum) list \<Rightarrow> sim_state \<Rightarrow> string \<Rightarrow> sim_state" where
  "process_day transactions nav_history st d_str =
     (let nav = nav_on nav_history d_str;
          txs_today = txs_on transactions d_str;
          nav_per_share_today = price_of nav (total_shares st);
          st' = foldl (process_row d_str nav_per_share_today) st txs_today
      in st'\<lparr>nav_per_share :=
               AList.update d_str (price_of nav (total_shares st')) (nav_per_share st')\<rparr>)"

definition all_dates :: "transaction list \<Rightarrow> (string \<times> fnum) list \<Rightarrow> string list" where
  "all_dates transactions nav_history =
     sort (remdups (map fst nav_history @ map tx_date transactions))"

definition init_state :: "transaction list \<Rightarrow> sim_state" where
  "init_state transactions =
     \<lparr>total_shares = Fin 0,
      user_share_balances =
        map (\<lambda>u. (u, Fin 0)) (filter (\<lambda>u. u \<noteq> []) (unique (map tx_user transactions))),
      share_ledger = [],
      nav_per_share = []\<rparr>"

definition simulate ::
  "transaction list \<Rightarrow> (string \<times> fnum) list \<Rightarrow> string list \<Rightarrow> sim_state" where
  "simulate transactions nav_history ds =
     foldl (process_day transactions nav_history) (init_state transactions) ds"

subsection \<open>Valuation, profit and fees (lines 124-140)\<close>

text \<open>
  \<open>transactions[transactions["Type"]==ty].groupby("User")["Amount"].sum().to_dict()\<close>:
  one key per user with a row of that type, in sorted order.
\<close>

definition group_sum :: "string \<Rightarrow> transaction list \<Rightarrow> (string \<times> fnum) list" where
  "group_sum ty transactions =
     (let sel = filter (\<lambda>row. tx_type row = ty) transactions
      in map (\<lambda>u. (u, fsum (map (\<lambda>row. amount_of (tx_amount row))
                               (filter (\<lambda>row. tx_user row = u) sel))))
           (sort (remdups (map tx_user sel))))"

definition deposit_sum :: "transaction list \<Rightarrow> (string \<times> fnum) list" where
  "deposit_sum transactions = group_sum ''Deposit'' transactions"

definition withdrawal_sum :: "transaction list \<Rightarrow> (string \<times> fnum) list" where
  "withdrawal_sum transactions =
     map (\<lambda>(u, v). (u, fneg v)) (group_sum ''Withdrawal'' transactions)"

definition profit_of :: "transaction list \<Rightarrow> string \<Rightarrow> fnum \<Rightarrow> fnum" where
  "profit_of transactions u value =
     fadd (fsub value (dict_get (deposit_sum transactions) u (Fin 0)))
          (dict_get (withdrawal_sum transactions) u (Fin 0))"

definition withdrawal_fee_amt :: "fnum \<Rightarrow> fnum \<Rightarrow> fnum" where
  "withdrawal_fee_amt gross withdraw_fee = fmul gross withdraw_fee"

definition profit_fee_amt :: "fnum \<Rightarrow> fnum \<Rightarrow> fnum" where
  "profit_fee_amt p profit_fee = fmul (py_max p (Fin 0)) profit_fee"

record fund_output =
  out_nav_per_share :: "(string \<times> fnum) list"
  out_user_shares :: "(string \<times> fnum) list"
  out_user_value :: "(string \<times> fnum) list"
  out_after_fees :: "(string \<times> fnum) list"
  out_profit :: "(string \<times> fnum) list"
  out_ledger :: "ledger_entry list"
  out_fee_details :: "(string \<times> fnum \<times> fnum) list"

definition empty_output :: fund_output where
  "empty_output =
     \<lparr>out_nav_per_share = [], out_user_shares = [], out_user_value = [], out_after_fees = [],
      out_profit = [], out_ledger = [], out_fee_details = []\<rparr>"

text \<open>
  The function. It assigns to the \<open>Amount\<close> column of the table it is given (line 88), so
  the model returns the table as the caller finds it afterwards, next to the seven results.
  In \<open>out_fee_details\<close> a pair is (withdrawal fee, profit fee).
\<close>

definition recalculate_fund ::
  "transaction list \<Rightarrow> (string \<times> fnum) list \<Rightarrow> fnum \<Rightarrow> fnum
     \<Rightarrow> transaction list \<times> fund_output" where
  "recalculate_fund transactions0 nav_history withdraw_fee profit_fee =
     (let transactions = coerce_amounts transactions0;
          ds = all_dates transactions nav_history
      in if ds = [] then (transactions, empty_output)
         else
           (let st = simulate transactions nav_history ds;
                user_shares = user_share_balances st;
                current_nav_share = dict_get (nav_per_share st) (last ds) (Fin 1);
                user_value = map (\<lambda>(u, s). (u, fmul s current_nav_share)) user_shares;
                profit = map (\<lambda>(u, v). (u, profit_of transactions u v)) user_value;
                after_fees =
                  map (\<lambda>(u, gross).
                         (u, fsub (fsub gross (withdrawal_fee_amt gross withdraw_fee))
                               (profit_fee_amt (profit_of transactions u gross) profit_fee)))
                    user_value;
                fee_details =
                  map (\<lambda>(u, gross).
                         (u, withdrawal_fee_amt gross withdraw_fee,
                             profit_fee_amt (profit_of transactions u gross) profit_fee))
                    user_value
            in (transactions,
                \<lparr>out_nav_per_share = nav_per_share st, out_user_shares = user_shares,
                 out_user_value = user_value, out_after_fees = after_fees,
                 out_profit = profit, out_ledger = share_ledger st,
                 out_fee_details = fee_details\<rparr>)))"

subsection \<open>The states the simulation passes through\<close>

text \<open>
  \<open>state_before transactions nav_history k\<close> is the state of the outer loop when it has
  processed the first \<open>k\<close> dates of \<open>all_dates\<close>: a day boundary. \<open>state_at ... k j\<close> is the
  state inside day \<open>k\<close> (counted from 0), after the first \<open>j\<close> rows of that day.
\<close>

definition state_before :: "transaction list \<Rightarrow> (string \<times> fnum) list \<Rightarrow> nat \<Rightarrow> sim_state" where
  "state_before transactions nav_history k =
     simulate transactions nav_history (take k (all_dates transactions nav_history))"


text \<open>The number of shares a Withdrawal row takes out: the request, clamped (lines 111-112).\<close>

definition withdrawn :: "sim_state \<Rightarrow> transaction \<Rightarrow> fnum \<Rightarrow> fnum" where
  "withdrawn st row p =
     py_min (shares_for (amount_of (tx_amount row)) p)
            (dict_get (user_share_balances st) (tx_user row) (Fin 0))"

text \<open>The rows that reach the ledger: every other type is skipped (line 118).\<close>

definition is_dw :: "transaction \<Rightarrow> bool" where
  "is_dw row = (tx_type row = ''Deposit'' \<or> tx_type row = ''Withdrawal'')"

text \<open>The ledger entries that a run from \<open>st\<close> to \<open>st'\<close> has appended.\<close>

definition new_entries :: "sim_state \<Rightarrow> sim_state \<Rightarrow> ledger_entry list" where
  "new_entries st st' = drop (length (share_ledger st)) (share_ledger st')"

subsection \<open>Auxiliary notions for the proofs\<close>




text \<open>What every ledger entry of a day with intra-day price \<open>p\<close> looks like (lines 119-122).\<close>

definition priced :: "string \<Rightarrow> fnum \<Rightarrow> ledger_entry \<Rightarrow> bool" where
  "priced d p e =
     (le_date e = d \<and> le_nav_share e = p \<and>
      (if le_type e = ''Deposit'' then le_shares e = shares_for (le_amount e) p
       else le_amount e = fneg (fmul (le_shares e) p)))"

text \<open>The state when the outer loop has finished: the results are read from it.\<close>

definition final_state :: "transaction list \<Rightarrow> (string \<times> fnum) list \<Rightarrow> sim_state" where
  "final_state transactions nav_history =
     simulate transactions nav_history (all_dates transactions nav_history)"

subsection \<open>Concrete inputs used to run the model\<close>

definition mk_tx :: "string \<Rightarrow> string \<Rightarrow> string \<Rightarrow> real \<Rightarrow> transaction" where
  "mk_tx d u ty a = \<lparr>tx_date = d, tx_user = u, tx_type = ty, tx_amount = NumCell a\<rparr>"

definition day1 :: string where "day1 = ''2025-05-18''"

definition day2 :: string where "day2 = ''2025-05-19''"







text \<open>The same total and the same balance for every user; the second dict may lack keys.\<close>

definition same_holdings :: "sim_state \<Rightarrow> sim_state \<Rightarrow> bool" where
  "same_holdings st st' =
     (total_shares st = total_shares st' \<and>
      (\<forall>w. dict_get (user_share_balances st) w (Fin 0) =
            dict_get (user_share_balances st') w (Fin 0)) \<and>
      fst ` set (user_share_balances st') \<subseteq> fst ` set (user_share_balances st))"

section \<open>Basic facts\<close>

lemma set_unique [simp]: "set (unique xs) = set xs"
  by (induction xs rule: unique.induct) auto

lemma distinct_unique [simp]: "distinct (unique xs)"
  by (induction xs rule: unique.induct) auto

lemma fsum_Nil [simp]: "fsum [] = Fin 0"
  by (simp add: fsum_def)

lemma fsum_Cons [simp]: "fsum (x # xs) = fadd x (fsum xs)"
  by (simp add: fsum_def)


lemma dict_get_update: "dict_get (AList.update k v al) k' dflt = (if k' = k then v else dict_get al k' dflt)"
  by (simp add: dict_get_def update_conv')







lemma process_row_other:
  "tx_type row \<noteq> ''Deposit'' \<Longrightarrow> tx_type row \<noteq> ''Withdrawal'' \<Longrightarrow> process_row d p st row = st"
  by (simp add: process_row_def)

lemma process_row_deposit:
  "tx_type row = ''Deposit'' \<Longrightarrow>
   process_row d p st row =
     st\<lparr>total_shares := fadd (total_shares st) (shares_for (amount_of (tx_amount row)) p),
        user_share_balances :=
          AList.update (tx_user row)
            (fadd (dict_get (user_share_balances st) (tx_user row) (Fin 0))
                  (shares_for (amount_of (tx_amount row)) p))
            (user_share_balances st),
        share_ledger := share_ledger st @
          [\<lparr>le_date = d, le_user = tx_user row, le_type = ''Deposit'',
            le_amount = amount_of (tx_amount row),
            le_shares = shares_for (amount_of (tx_amount row)) p, le_nav_share = p\<rparr>]\<rparr>"
  by (simp add: process_row_def Let_def)

lemma process_row_withdrawal:
  "tx_type row = ''Withdrawal'' \<Longrightarrow>
   process_row d p st row =
     st\<lparr>total_shares := fsub (total_shares st) (withdrawn st row p),
        user_share_balances :=
          AList.update (tx_user row)
            (fsub (dict_get (user_share_balances st) (tx_user row) (Fin 0)) (withdrawn st row p))
            (user_share_balances st),
        share_ledger := share_ledger st @
          [\<lparr>le_date = d, le_user = tx_user row, le_type = ''Withdrawal'',
            le_amount = fneg (fmul (withdrawn st row p) p),
            le_shares = withdrawn st row p, le_nav_share = p\<rparr>]\<rparr>"
  by (simp add: process_row_def Let_def withdrawn_def)










lemma process_row_ledger:
  "\<exists>new. share_ledger (process_row d p st row) = share_ledger st @ new \<and>
         map (\<lambda>e. (le_user e, le_type e)) new =
           map (\<lambda>r. (tx_user r, tx_type r)) (filter is_dw [row]) \<and>
         list_all (priced d p) new"
proof -
  consider (dep) "tx_type row = ''Deposit''" | (wd) "tx_type row = ''Withdrawal''"
    | (other) "tx_type row \<noteq> ''Deposit''" "tx_type row \<noteq> ''Withdrawal''" by blast
  then show ?thesis
  proof cases
    case dep
    then show ?thesis by (simp add: process_row_deposit is_dw_def priced_def)
  next
    case wd
    then show ?thesis by (simp add: process_row_withdrawal is_dw_def priced_def)
  next
    case other
    then show ?thesis by (simp add: process_row_other is_dw_def)
  qed
qed

lemma foldl_process_row_ledger:
  "\<exists>new. share_ledger (foldl (process_row d p) st rows) = share_ledger st @ new \<and>
         map (\<lambda>e. (le_user e, le_type e)) new =
           map (\<lambda>r. (tx_user r, tx_type r)) (filter is_dw rows) \<and>
         list_all (priced d p) new"
proof (induction rows arbitrary: st)
  case Nil
  show ?case by simp
next
  case (Cons row rows)
  from process_row_ledger [of d p st row] obtain n1 where
    n1: "share_ledger (process_row d p st row) = share_ledger st @ n1"
        "map (\<lambda>e. (le_user e, le_type e)) n1 = map (\<lambda>r. (tx_user r, tx_type r)) (filter is_dw [row])"
        "list_all (priced d p) n1" by blast
  from Cons.IH [of "process_row d p st row"] obtain n2 where
    n2: "share_ledger (foldl (process_row d p) (process_row d p st row) rows) =
           share_ledger (process_row d p st row) @ n2"
        "map (\<lambda>e. (le_user e, le_type e)) n2 = map (\<lambda>r. (tx_user r, tx_type r)) (filter is_dw rows)"
        "list_all (priced d p) n2" by blast
  have "filter is_dw (row # rows) = filter is_dw [row] @ filter is_dw rows" by simp
  then have "map (\<lambda>e. (le_user e, le_type e)) (n1 @ n2) =
      map (\<lambda>r. (tx_user r, tx_type r)) (filter is_dw (row # rows))"
    using n1(2) n2(2) by (simp only: map_append)
  moreover have "share_ledger (foldl (process_row d p) st (row # rows)) = share_ledger st @ (n1 @ n2)"
    using n1(1) n2(1) by simp
  moreover have "list_all (priced d p) (n1 @ n2)" using n1(3) n2(3) by simp
  ultimately show ?case by blast
qed

lemma process_day_ledger:
  "share_ledger (process_day txs nav st d) =
     share_ledger (foldl (process_row d (price_of (nav_on nav d) (total_shares st))) st (txs_on txs d))"
  by (simp add: process_day_def Let_def)

lemma process_day_total:
  "total_shares (process_day txs nav st d) =
     total_shares (foldl (process_row d (price_of (nav_on nav d) (total_shares st))) st (txs_on txs d))"
  by (simp add: process_day_def Let_def)

lemma process_day_recorded:
  "dict_get (nav_per_share (process_day txs nav st d)) d dflt =
     price_of (nav_on nav d) (total_shares (process_day txs nav st d))"
  by (simp add: process_day_def Let_def dict_get_update)

lemma process_day_entries:
  "share_ledger (process_day txs nav st d) = share_ledger st @ new_entries st (process_day txs nav st d) \<and>
   map (\<lambda>e. (le_user e, le_type e)) (new_entries st (process_day txs nav st d)) =
     map (\<lambda>r. (tx_user r, tx_type r)) (filter is_dw (txs_on txs d)) \<and>
   list_all (priced d (price_of (nav_on nav d) (total_shares st))) (new_entries st (process_day txs nav st d))"
proof -
  from foldl_process_row_ledger [of d "price_of (nav_on nav d) (total_shares st)" st "txs_on txs d"]
  obtain new where
    n: "share_ledger (process_day txs nav st d) = share_ledger st @ new"
       "map (\<lambda>e. (le_user e, le_type e)) new = map (\<lambda>r. (tx_user r, tx_type r)) (filter is_dw (txs_on txs d))"
       "list_all (priced d (price_of (nav_on nav d) (total_shares st))) new"
    unfolding process_day_ledger by blast
  from n(1) have "new_entries st (process_day txs nav st d) = new"
    by (simp add: new_entries_def)
  with n show ?thesis by simp
qed

lemma state_before_Suc:
  "k < length (all_dates txs nav) \<Longrightarrow>
   state_before txs nav (Suc k) = process_day txs nav (state_before txs nav k) (all_dates txs nav ! k)"
  by (simp add: state_before_def simulate_def take_Suc_conv_app_nth)

lemma process_row_nav_per_share [simp]:
  "nav_per_share (process_row d p st row) = nav_per_share st"
  by (simp add: process_row_def Let_def)

lemma foldl_process_row_nav_per_share [simp]:
  "nav_per_share (foldl (process_row d p) st rows) = nav_per_share st"
  by (induction rows arbitrary: st) simp_all

lemma process_day_nav_per_share:
  "nav_per_share (process_day txs nav st d) =
     AList.update d (price_of (nav_on nav d) (total_shares (process_day txs nav st d))) (nav_per_share st)"
  by (simp add: process_day_def Let_def)

lemma foldl_process_day_other:
  "d \<notin> set ds \<Longrightarrow>
   dict_get (nav_per_share (foldl (process_day txs nav) st ds)) d dflt = dict_get (nav_per_share st) d dflt"
proof (induction ds arbitrary: st)
  case Nil
  show ?case by simp
next
  case (Cons d' ds)
  then have "dict_get (nav_per_share (foldl (process_day txs nav) (process_day txs nav st d') ds)) d dflt
      = dict_get (nav_per_share (process_day txs nav st d')) d dflt" by simp
  also have "\<dots> = dict_get (nav_per_share st) d dflt"
    using Cons.prems by (simp add: process_day_nav_per_share dict_get_update)
  finally show ?case by simp
qed

lemma distinct_all_dates: "distinct (all_dates txs nav)"
  by (simp add: all_dates_def)

lemma final_state_split:
  assumes "k < length (all_dates txs nav)"
  shows "final_state txs nav =
     foldl (process_day txs nav) (state_before txs nav (Suc k)) (drop (Suc k) (all_dates txs nav))"
proof -
  have "all_dates txs nav = take (Suc k) (all_dates txs nav) @ drop (Suc k) (all_dates txs nav)"
    by simp
  then have "final_state txs nav =
      simulate txs nav (take (Suc k) (all_dates txs nav) @ drop (Suc k) (all_dates txs nav))"
    by (simp add: final_state_def)
  then show ?thesis by (simp only: simulate_def state_before_def foldl_append)
qed

lemma recorded_is_final:
  assumes k: "k < length (all_dates txs nav)"
  shows "dict_get (nav_per_share (final_state txs nav)) (all_dates txs nav ! k) dflt =
         dict_get (nav_per_share (state_before txs nav (Suc k))) (all_dates txs nav ! k) dflt"
proof -
  let ?ds = "all_dates txs nav"
  have "distinct ?ds" by (rule distinct_all_dates)
  then have "distinct (take (Suc k) ?ds @ drop (Suc k) ?ds)" by simp
  then have "set (take (Suc k) ?ds) \<inter> set (drop (Suc k) ?ds) = {}"
    by (simp only: distinct_append)
  moreover have "?ds ! k \<in> set (take (Suc k) ?ds)"
    using k by (simp add: take_Suc_conv_app_nth)
  ultimately have "?ds ! k \<notin> set (drop (Suc k) ?ds)" by blast
  then show ?thesis
    unfolding final_state_split [OF k] by (rule foldl_process_day_other)
qed


lemma recalculate_fund_ledger:
  "out_ledger (snd (recalculate_fund txs0 nav wfee pfee)) =
     share_ledger (final_state (coerce_amounts txs0) nav)"
  by (simp add: recalculate_fund_def Let_def final_state_def empty_output_def simulate_def init_state_def)


lemma day_facts:
  assumes "k < length (all_dates txs nav)"
  shows "share_ledger (state_before txs nav (Suc k)) =
           share_ledger (state_before txs nav k) @
             new_entries (state_before txs nav k) (state_before txs nav (Suc k))"
    and "map (\<lambda>e. (le_user e, le_type e))
             (new_entries (state_before txs nav k) (state_before txs nav (Suc k))) =
           map (\<lambda>r. (tx_user r, tx_type r)) (filter is_dw (txs_on txs (all_dates txs nav ! k)))"
    and "list_all (priced (all_dates txs nav ! k)
                     (price_of (nav_on nav (all_dates txs nav ! k))
                        (total_shares (state_before txs nav k))))
           (new_entries (state_before txs nav k) (state_before txs nav (Suc k)))"
    and "dict_get (nav_per_share (final_state txs nav)) (all_dates txs nav ! k) dflt =
           price_of (nav_on nav (all_dates txs nav ! k)) (total_shares (state_before txs nav (Suc k)))"
  using process_day_entries [of txs nav "state_before txs nav k" "all_dates txs nav ! k"]
  by (simp_all add: recorded_is_final [OF assms] state_before_Suc [OF assms] process_day_recorded)

lemma fmul_NaN_right [simp]: "fmul x NaN = NaN"
  by (cases x) simp_all

lemma fdiv_NaN_left [simp]: "fdiv NaN x = NaN"
  by simp

lemma withdrawn_at_NaN: "\<exists>w. withdrawn st row NaN = Fin w \<and> w \<le> 0"
  by (cases "dict_get (user_share_balances st) (tx_user row) (Fin 0)")
     (simp_all add: withdrawn_def shares_for_def py_min_def flt_def)

lemma process_row_NaN_total:
  assumes "total_shares st = Fin t"
  shows "\<exists>t'. total_shares (process_row d NaN st row) = Fin t' \<and> t \<le> t'"
proof -
  consider (dep) "tx_type row = ''Deposit''" | (wd) "tx_type row = ''Withdrawal''"
    | (other) "tx_type row \<noteq> ''Deposit''" "tx_type row \<noteq> ''Withdrawal''" by blast
  then show ?thesis
  proof cases
    case dep
    then show ?thesis using assms by (simp add: process_row_deposit shares_for_def)
  next
    case wd
    from withdrawn_at_NaN obtain w where "withdrawn st row NaN = Fin w" "w \<le> 0" by blast
    with wd assms show ?thesis by (simp add: process_row_withdrawal)
  next
    case other
    then show ?thesis using assms by (simp add: process_row_other)
  qed
qed

lemma foldl_process_row_NaN_total:
  "total_shares st = Fin t \<Longrightarrow>
   \<exists>t'. total_shares (foldl (process_row d NaN) st rows) = Fin t' \<and> t \<le> t'"
proof (induction rows arbitrary: st t)
  case Nil
  then show ?case by simp
next
  case (Cons row rows)
  from process_row_NaN_total [OF Cons.prems, of d row] obtain t1 where
    t1: "total_shares (process_row d NaN st row) = Fin t1" "t \<le> t1" by blast
  from Cons.IH [OF t1(1)] obtain t2 where
    "total_shares (foldl (process_row d NaN) (process_row d NaN st row) rows) = Fin t2" "t1 \<le> t2"
    by blast
  with t1(2) show ?case by auto
qed

lemma map_of_map_key:
  "map_of (map (\<lambda>(k, v). (k, f k v)) al) k = map_option (f k) (map_of al k)"
  by (induction al) auto





lemma profit_fee_amt_nonneg:
  assumes "0 \<le> r"
  shows "\<not> flt (fmul (py_max p (Fin 0)) (Fin r)) (Fin 0)"
proof (cases p)
  case (Fin a)
  with assms show ?thesis by (simp add: py_max_def flt_def not_less)
next
  case NaN
  then show ?thesis by (simp add: py_max_def flt_def)
qed

lemma out_profit_eq:
  "out_profit (snd (recalculate_fund txs0 nav wfee pfee)) =
     map (\<lambda>(u, v). (u, profit_of (coerce_amounts txs0) u v))
       (out_user_value (snd (recalculate_fund txs0 nav wfee pfee)))"
  by (simp add: recalculate_fund_def Let_def empty_output_def del: map_map)

lemma out_fee_details_eq:
  "out_fee_details (snd (recalculate_fund txs0 nav wfee pfee)) =
     map (\<lambda>(u, gross). (u, fmul gross wfee,
                             fmul (py_max (profit_of (coerce_amounts txs0) u gross) (Fin 0)) pfee))
       (out_user_value (snd (recalculate_fund txs0 nav wfee pfee)))"
  by (simp add: recalculate_fund_def Let_def empty_output_def withdrawal_fee_amt_def
        profit_fee_amt_def del: map_map)

lemma out_after_fees_eq:
  "out_after_fees (snd (recalculate_fund txs0 nav wfee pfee)) =
     map (\<lambda>(u, gross). (u, fsub (fsub gross (fmul gross wfee))
                             (fmul (py_max (profit_of (coerce_amounts txs0) u gross) (Fin 0)) pfee)))
       (out_user_value (snd (recalculate_fund txs0 nav wfee pfee)))"
  by (simp add: recalculate_fund_def Let_def empty_output_def withdrawal_fee_amt_def
        profit_fee_amt_def del: map_map)





























lemma same_holdings_refl [simp]: "same_holdings st st"
  by (simp add: same_holdings_def)

lemma same_holdings_trans:
  "same_holdings a b \<Longrightarrow> same_holdings b c \<Longrightarrow> same_holdings a c"
  unfolding same_holdings_def by (intro conjI) (simp, simp, blast)

lemma same_holdings_fields:
  "total_shares a = total_shares b \<Longrightarrow> user_share_balances a = user_share_balances b \<Longrightarrow>
   same_holdings a b"
  by (simp add: same_holdings_def)

lemma withdrawn_cong:
  "same_holdings st st' \<Longrightarrow> withdrawn st row p = withdrawn st' row p"
  by (simp add: withdrawn_def same_holdings_def)

lemma process_row_cong:
  assumes s: "same_holdings st st'"
  shows "same_holdings (process_row d p st row) (process_row d p st' row)"
proof -
  from s have g: "dict_get (user_share_balances st) w (Fin 0) =
      dict_get (user_share_balances st') w (Fin 0)" for w
    by (simp add: same_holdings_def)
  from s have t: "total_shares st = total_shares st'" by (simp add: same_holdings_def)
  from s have k: "fst ` set (user_share_balances st') \<subseteq> fst ` set (user_share_balances st)"
    by (simp add: same_holdings_def)
  consider (dep) "tx_type row = ''Deposit''" | (wd) "tx_type row = ''Withdrawal''"
    | (other) "tx_type row \<noteq> ''Deposit''" "tx_type row \<noteq> ''Withdrawal''" by blast
  then show ?thesis
  proof cases
    case dep
    show ?thesis
      unfolding process_row_deposit [OF dep] same_holdings_def
      using k by (auto simp: g t dict_get_update dom_update)
  next
    case wd
    show ?thesis
      unfolding process_row_withdrawal [OF wd] same_holdings_def withdrawn_cong [OF s]
      using k by (auto simp: g t dict_get_update dom_update)
  next
    case other
    with s show ?thesis by (simp add: process_row_other)
  qed
qed

lemma foldl_process_row_cong:
  "same_holdings st st' \<Longrightarrow>
   same_holdings (foldl (process_row d p) st rows) (foldl (process_row d p) st' rows)"
  by (induction rows arbitrary: st st') (simp_all add: process_row_cong)


lemma process_day_balances:
  "user_share_balances (process_day txs nav st d) =
     user_share_balances (foldl (process_row d (price_of (nav_on nav d) (total_shares st))) st (txs_on txs d))"
  by (simp add: process_day_def Let_def)

lemma process_day_holdings:
  "same_holdings (process_day txs nav st d)
     (foldl (process_row d (price_of (nav_on nav d) (total_shares st))) st (txs_on txs d))"
  by (rule same_holdings_fields) (simp_all add: process_day_total process_day_balances)

lemma process_day_holdings':
  "same_holdings
     (foldl (process_row d (price_of (nav_on nav d) (total_shares st))) st (txs_on txs d))
     (process_day txs nav st d)"
  by (rule same_holdings_fields) (simp_all add: process_day_total process_day_balances)

lemma process_day_cong:
  assumes s: "same_holdings st st'" and r: "txs_on X d = txs_on Y d"
  shows "same_holdings (process_day X nav st d) (process_day Y nav st' d)"
proof -
  from s have t: "total_shares st = total_shares st'" by (simp add: same_holdings_def)
  let ?p = "price_of (nav_on nav d) (total_shares st)"
  have "same_holdings (foldl (process_row d ?p) st (txs_on X d)) (foldl (process_row d ?p) st' (txs_on Y d))"
    unfolding r using s by (rule foldl_process_row_cong)
  then have "same_holdings (process_day X nav st d) (foldl (process_row d ?p) st' (txs_on Y d))"
    by (rule same_holdings_trans [OF process_day_holdings])
  then show ?thesis
    unfolding t by (rule same_holdings_trans) (rule process_day_holdings')
qed




lemma foldl_process_day_cong:
  "same_holdings st st' \<Longrightarrow>
   same_holdings (foldl (process_day X nav) st ds) (foldl (process_day X nav) st' ds)"
  by (induction ds arbitrary: st st') (simp_all add: process_day_cong)





lemma txs_on_append [simp]: "txs_on (xs @ ys) d = txs_on xs d @ txs_on ys d"
  by (simp add: txs_on_def)

lemma txs_on_single: "txs_on [row] d = (if tx_date row = d then [row] else [])"
  by (simp add: txs_on_def)
















section \<open>The properties\<close>






text \<open>
  C9 (a missing NAV propagates as NaN). Let the \<open>k\<close>-th date \<open>d\<close> of \<open>all_dates\<close> have no NAV
  entry while a positive number of shares is outstanding. Then the intra-day price of \<open>d\<close>
  is NaN; nothing is skipped: the day still appends one ledger entry for each Deposit or
  Withdrawal row dated \<open>d\<close>; each of these entries has NaN as its NAV/Share, each Withdrawal
  entry has NaN as its amount; and the recorded \<open>nav_per_share[d]\<close> is NaN.
\<close>

theorem missing_nav_propagates:
  assumes "k < length (all_dates txs nav)"
    and "map_of nav (all_dates txs nav ! k) = None"
    and "total_shares (state_before txs nav k) = Fin t"
    and "0 < t"
  shows "let d = all_dates txs nav ! k;
             st = state_before txs nav k;
             st' = state_before txs nav (Suc k)
         in price_of (nav_on nav d) (total_shares st) = NaN \<and>
            share_ledger st' = share_ledger st @ new_entries st st' \<and>
            map (\<lambda>e. (le_user e, le_type e)) (new_entries st st') =
              map (\<lambda>r. (tx_user r, tx_type r)) (filter is_dw (txs_on txs d)) \<and>
            list_all (\<lambda>e. le_nav_share e = NaN \<and>
                           (le_type e = ''Withdrawal'' \<longrightarrow> le_amount e = NaN))
              (new_entries st st') \<and>
            dict_get (nav_per_share (final_state txs nav)) d dflt = NaN"
proof -
  let ?d = "all_dates txs nav ! k"
  let ?st = "state_before txs nav k"
  let ?st' = "state_before txs nav (Suc k)"
  have n: "nav_on nav ?d = NaN" using assms(2) by (simp add: nav_on_def dict_get_def)
  have p: "price_of (nav_on nav ?d) (total_shares ?st) = NaN"
    using assms(3,4) by (simp add: n price_of_def)
  have "total_shares ?st' = total_shares (foldl (process_row ?d NaN) ?st (txs_on txs ?d))"
    by (simp add: state_before_Suc [OF assms(1)] process_day_total p)
  with foldl_process_row_NaN_total [OF assms(3), of ?d "txs_on txs ?d"]
  obtain t' where "total_shares ?st' = Fin t'" "t \<le> t'" by auto
  with assms(4) have "price_of (nav_on nav ?d) (total_shares ?st') = NaN"
    by (simp add: n price_of_def)
  then have r: "dict_get (nav_per_share (final_state txs nav)) ?d dflt = NaN"
    using day_facts(4) [OF assms(1), of dflt] by simp
  have "list_all (\<lambda>e. le_nav_share e = NaN \<and> (le_type e = ''Withdrawal'' \<longrightarrow> le_amount e = NaN))
          (new_entries ?st ?st')"
    using day_facts(3) [OF assms(1)] unfolding p
    by (auto simp: list_all_iff priced_def)
  with p r day_facts(1,2) [OF assms(1)] show ?thesis by (simp add: Let_def)
qed

text \<open>
  Run on a table with a deposit of 100 on the first day (NAV 100) and, on the second day,
  which has no NAV, a deposit of 5 and a withdrawal of 10.
\<close>

theorem missing_nav_propagates_witness:
  "Suc 0 < length (all_dates [mk_tx day1 ''alice'' ''Deposit'' 100, mk_tx day2 ''alice'' ''Deposit'' 5,
                               mk_tx day2 ''alice'' ''Withdrawal'' 10] [(day1, Fin 100)]) \<and>
   map_of [(day1, Fin 100)] day2 = None \<and>
   total_shares (state_before [mk_tx day1 ''alice'' ''Deposit'' 100, mk_tx day2 ''alice'' ''Deposit'' 5,
                                mk_tx day2 ''alice'' ''Withdrawal'' 10] [(day1, Fin 100)] (Suc 0)) = Fin 100 \<and>
   map (\<lambda>e. (le_type e, le_amount e, le_shares e, le_nav_share e))
     (new_entries
        (state_before [mk_tx day1 ''alice'' ''Deposit'' 100, mk_tx day2 ''alice'' ''Deposit'' 5,
                       mk_tx day2 ''alice'' ''Withdrawal'' 10] [(day1, Fin 100)] (Suc 0))
        (state_before [mk_tx day1 ''alice'' ''Deposit'' 100, mk_tx day2 ''alice'' ''Deposit'' 5,
                       mk_tx day2 ''alice'' ''Withdrawal'' 10] [(day1, Fin 100)] (Suc (Suc 0)))) =
     [(''Deposit'', Fin 5, Fin 0, NaN), (''Withdrawal'', NaN, Fin 0, NaN)] \<and>
   dict_get (nav_per_share (final_state [mk_tx day1 ''alice'' ''Deposit'' 100,
        mk_tx day2 ''alice'' ''Deposit'' 5, mk_tx day2 ''alice'' ''Withdrawal'' 10] [(day1, Fin 100)]))
     day2 (Fin 1) = NaN"
proof -
  let ?T = "[mk_tx day1 ''alice'' ''Deposit'' 100, mk_tx day2 ''alice'' ''Deposit'' 5,
             mk_tx day2 ''alice'' ''Withdrawal'' 10]"
  let ?N = "[(day1, Fin 100)]"
  have k: "Suc 0 < length (all_dates ?T ?N)" by code_simp
  have d: "all_dates ?T ?N ! Suc 0 = day2" by code_simp
  have m: "map_of ?N (all_dates ?T ?N ! Suc 0) = None" unfolding d by code_simp
  have t: "total_shares (state_before ?T ?N (Suc 0)) = Fin 100" by code_simp
  have e: "map (\<lambda>e. (le_type e, le_amount e, le_shares e, le_nav_share e))
     (new_entries (state_before ?T ?N (Suc 0)) (state_before ?T ?N (Suc (Suc 0)))) =
     [(''Deposit'', Fin 5, Fin 0, NaN), (''Withdrawal'', NaN, Fin 0, NaN)]" by code_simp
  have m': "map_of ?N day2 = None" by code_simp
  from missing_nav_propagates [OF k m t, where dflt = "Fin 1"] d have
    "dict_get (nav_per_share (final_state ?T ?N)) day2 (Fin 1) = NaN" by (simp add: Let_def)
  with k m' t e show ?thesis by simp
qed

text \<open>
  C7 (fees). For every user \<open>u\<close> of the result, with value \<open>gross = user_value[u]\<close> and profit
  \<open>p = profit[u]\<close>: the withdrawal fee is \<open>gross * withdraw_fee\<close>, the profit fee is
  \<open>max(p, 0) * profit_fee\<close>, and \<open>after_fees[u] = gross - withdrawal fee - profit fee\<close>.
  For a profit fee rate that is a non-negative number, the profit fee is never below zero,
  whatever the profit.
\<close>

theorem fee_formulas:
  assumes "map_of (out_user_value (snd (recalculate_fund txs0 nav wfee pfee))) u = Some gross"
  shows "\<exists>p. map_of (out_profit (snd (recalculate_fund txs0 nav wfee pfee))) u = Some p \<and>
          map_of (out_fee_details (snd (recalculate_fund txs0 nav wfee pfee))) u =
            Some (fmul gross wfee, fmul (py_max p (Fin 0)) pfee) \<and>
          map_of (out_after_fees (snd (recalculate_fund txs0 nav wfee pfee))) u =
            Some (fsub (fsub gross (fmul gross wfee)) (fmul (py_max p (Fin 0)) pfee)) \<and>
          (\<forall>r. pfee = Fin r \<and> 0 \<le> r \<longrightarrow> \<not> flt (fmul (py_max p (Fin 0)) pfee) (Fin 0))"
  unfolding out_profit_eq out_fee_details_eq out_after_fees_eq
  using assms by (auto simp: map_of_map_key profit_fee_amt_nonneg)

text \<open>
  Run with a loss: alice deposits 100 (NAV 100) and the NAV halves the next day; the fees are
  3% and 2%. Her value is 50, her profit -50, the profit fee 0.
\<close>

theorem fee_formulas_witness:
  "map_of (out_user_value (snd (recalculate_fund [mk_tx day1 ''alice'' ''Deposit'' 100]
            [(day1, Fin 100), (day2, Fin 50)] (Fin (3 / 100)) (Fin (2 / 100)))))
     ''alice'' = Some (Fin 50) \<and>
   map_of (out_profit (snd (recalculate_fund [mk_tx day1 ''alice'' ''Deposit'' 100]
            [(day1, Fin 100), (day2, Fin 50)] (Fin (3 / 100)) (Fin (2 / 100)))))
     ''alice'' = Some (Fin (- 50)) \<and>
   map_of (out_fee_details (snd (recalculate_fund [mk_tx day1 ''alice'' ''Deposit'' 100]
            [(day1, Fin 100), (day2, Fin 50)] (Fin (3 / 100)) (Fin (2 / 100)))))
     ''alice'' = Some (Fin (3 / 2), Fin 0) \<and>
   map_of (out_after_fees (snd (recalculate_fund [mk_tx day1 ''alice'' ''Deposit'' 100]
            [(day1, Fin 100), (day2, Fin 50)] (Fin (3 / 100)) (Fin (2 / 100)))))
     ''alice'' = Some (Fin (97 / 2)) \<and>
   \<not> flt (fmul (py_max (Fin (- 50)) (Fin 0)) (Fin (2 / 100))) (Fin 0)"
proof -
  let ?out = "snd (recalculate_fund [mk_tx day1 ''alice'' ''Deposit'' 100]
            [(day1, Fin 100), (day2, Fin 50)] (Fin (3 / 100)) (Fin (2 / 100)))"
  have v: "map_of (out_user_value ?out) ''alice'' = Some (Fin 50)" by code_simp
  have p: "map_of (out_profit ?out) ''alice'' = Some (Fin (- 50))" by code_simp
  from fee_formulas [OF v] p have
    f: "map_of (out_fee_details ?out) ''alice'' =
       Some (fmul (Fin 50) (Fin (3 / 100)), fmul (py_max (Fin (- 50)) (Fin 0)) (Fin (2 / 100)))"
    and a: "map_of (out_after_fees ?out) ''alice'' =
       Some (fsub (fsub (Fin 50) (fmul (Fin 50) (Fin (3 / 100))))
               (fmul (py_max (Fin (- 50)) (Fin 0)) (Fin (2 / 100))))"
    and n: "\<forall>r. Fin (2 / 100) = Fin r \<and> 0 \<le> r \<longrightarrow>
              \<not> flt (fmul (py_max (Fin (- 50)) (Fin 0)) (Fin (2 / 100))) (Fin 0)"
    by auto
  from f have "map_of (out_fee_details ?out) ''alice'' = Some (Fin (3 / 2), Fin 0)"
    by (simp add: py_max_def)
  moreover from a have "map_of (out_after_fees ?out) ''alice'' = Some (Fin (97 / 2))"
    by (simp add: py_max_def)
  moreover from n [THEN spec, of "2 / 100"]
  have "\<not> flt (fmul (py_max (Fin (- 50)) (Fin 0)) (Fin (2 / 100))) (Fin 0)"
    by simp
  ultimately show ?thesis using v p by blast
qed

text \<open>
  C1 (profit), evaluated. The table stores a Withdrawal with its positive requested amount
  (the form of line 252 admits amounts from 0.01 only), and line 129 negates the sum of
  these amounts. Alice deposits 100 at price 1 and withdraws 100 the next day at price 1:
  her value is 0 and the two ledger entries are +100 and -100, but the reported profit is
  \<open>0 - 100 + (-100) = -200\<close>.
\<close>

theorem profit_after_full_withdrawal:
  "out_user_value (snd (recalculate_fund
      [mk_tx day1 ''alice'' ''Deposit'' 100, mk_tx day2 ''alice'' ''Withdrawal'' 100]
      [(day1, Fin 100), (day2, Fin 100)] (Fin (3 / 100)) (Fin (2 / 100)))) = [(''alice'', Fin 0)] \<and>
   map (\<lambda>e. (le_type e, le_amount e, le_shares e, le_nav_share e))
     (out_ledger (snd (recalculate_fund
      [mk_tx day1 ''alice'' ''Deposit'' 100, mk_tx day2 ''alice'' ''Withdrawal'' 100]
      [(day1, Fin 100), (day2, Fin 100)] (Fin (3 / 100)) (Fin (2 / 100))))) =
     [(''Deposit'', Fin 100, Fin 100, Fin 1), (''Withdrawal'', Fin (- 100), Fin 100, Fin 1)] \<and>
   withdrawal_sum [mk_tx day1 ''alice'' ''Deposit'' 100, mk_tx day2 ''alice'' ''Withdrawal'' 100] =
     [(''alice'', Fin (- 100))] \<and>
   out_profit (snd (recalculate_fund
      [mk_tx day1 ''alice'' ''Deposit'' 100, mk_tx day2 ''alice'' ''Withdrawal'' 100]
      [(day1, Fin 100), (day2, Fin 100)] (Fin (3 / 100)) (Fin (2 / 100)))) = [(''alice'', Fin (- 200))]"
  by code_simp











end
